theory Spec2Isabelle
  imports Main "HOL-Library.AList"
begin

section \<open>Values that cross the JavaScript boundary\<close>

text \<open>
  The server in \<^verbatim>\<open>src/server.js\<close> is an Express application with two routes, \<^verbatim>\<open>/joke\<close> and
  \<^verbatim>\<open>/feedback\<close>, a tracing wrapper \<^verbatim>\<open>withSpan\<close>, a helper \<^verbatim>\<open>getLatestAssistantMessageText\<close>
  and a generic error-handling middleware. The remote agent platform, the tracer and the
  Express response object are libraries: they are modelled by what the source does to them
  (the calls it makes, with their arguments, and the values it reads from their results).
\<close>

text \<open>JSON-like data that the source only passes along (\<^verbatim>\<open>run.lastError\<close>, response bodies).\<close>

datatype jv = JUndefined | JNull | JStr string | JNum int | JObj "(string \<times> jv) list"

text \<open>
  A thrown value. \<^verbatim>\<open>JsError name message\<close> is an \<^verbatim>\<open>Error\<close> object (\<^verbatim>\<open>new Error(m)\<close> is
  \<^verbatim>\<open>JsError ''Error'' m\<close>, a failed property read of \<^verbatim>\<open>undefined\<close> is a \<^verbatim>\<open>TypeError\<close>);
  \<^verbatim>\<open>Thrown m s\<close> is any other thrown value, with its \<^verbatim>\<open>message\<close> property when it has a
  non-nullish one and the string \<^verbatim>\<open>String(error)\<close> gives for it.
\<close>

datatype err = JsError string string | Thrown "string option" string

text \<open>\<^verbatim>\<open>error?.message\<close>: \<^verbatim>\<open>None\<close> stands for \<^verbatim>\<open>undefined\<close> or \<^verbatim>\<open>null\<close>.\<close>

fun message_of :: "err \<Rightarrow> string option" where
  "message_of (JsError n m) = Some m"
| "message_of (Thrown mo s) = mo"

text \<open>\<^verbatim>\<open>String(error)\<close>; for an \<^verbatim>\<open>Error\<close> object this is \<^verbatim>\<open>Error.prototype.toString\<close>.\<close>

fun String_of :: "err \<Rightarrow> string" where
  "String_of (JsError n m) = (if m = [] then n else if n = [] then m else n @ '': '' @ m)"
| "String_of (Thrown mo s) = s"

text \<open>The nullish coalescing operator \<^verbatim>\<open>a ?? b\<close>, with \<^verbatim>\<open>None\<close> for \<^verbatim>\<open>undefined\<close> and \<^verbatim>\<open>null\<close>.\<close>

definition nullish_or :: "'a option \<Rightarrow> 'a option \<Rightarrow> 'a option" where
  "nullish_or a b = (case a of Some v \<Rightarrow> Some v | None \<Rightarrow> b)"

text \<open>\<^verbatim>\<open>a ?? d\<close> with a default \<^verbatim>\<open>d\<close> that is never nullish.\<close>

definition nullish_default :: "'a option \<Rightarrow> 'a \<Rightarrow> 'a" where
  "nullish_default a d = (case a of Some v \<Rightarrow> v | None \<Rightarrow> d)"

section \<open>Spans\<close>

datatype span_kind = INTERNAL | SERVER | CLIENT | PRODUCER | CONSUMER

datatype status_code = UNSET | OK | ERROR

text \<open>The argument of \<^verbatim>\<open>span.setStatus\<close>: a code and an optional message.\<close>

datatype span_status = Status status_code "string option"

text \<open>
  An attribute value: a string, a number, or the text \<^verbatim>\<open>JSON.stringify\<close> produces for a value
  (kept as the value it encodes).
\<close>

datatype attr = AStr string | ANum int | AJson jv

text \<open>
  What the source can do to a span: set attributes (a later value for a key replaces the earlier
  one), add events, set the status, record exceptions, and end it. \<^verbatim>\<open>end_calls\<close> counts the
  calls of \<^verbatim>\<open>span.end()\<close>.
\<close>

record span =
  sp_name :: string
  sp_kind :: span_kind
  attributes :: "(string \<times> attr) list"
  events :: "(string \<times> (string \<times> attr) list) list"
  status :: span_status
  exceptions :: "err list"
  end_calls :: nat

definition startSpan :: "string \<Rightarrow> span_kind \<Rightarrow> span" where
  "startSpan n k =
     \<lparr>sp_name = n, sp_kind = k, attributes = [], events = [], status = Status UNSET None,
      exceptions = [], end_calls = 0\<rparr>"

definition setAttribute :: "string \<Rightarrow> attr \<Rightarrow> span \<Rightarrow> span" where
  "setAttribute k v s = s\<lparr>attributes := AList.update k v (attributes s)\<rparr>"

definition addEvent :: "string \<Rightarrow> (string \<times> attr) list \<Rightarrow> span \<Rightarrow> span" where
  "addEvent n as s = s\<lparr>events := events s @ [(n, as)]\<rparr>"

definition setStatus :: "span_status \<Rightarrow> span \<Rightarrow> span" where
  "setStatus st s = s\<lparr>status := st\<rparr>"

definition recordException :: "err \<Rightarrow> span \<Rightarrow> span" where
  "recordException e s = s\<lparr>exceptions := exceptions s @ [e]\<rparr>"

definition span_end :: "span \<Rightarrow> span" where
  "span_end s = s\<lparr>end_calls := Suc (end_calls s)\<rparr>"

text \<open>
  The module variable \<^verbatim>\<open>tracer\<close>: assigned by \<^verbatim>\<open>telemetrySetup\<close>, and left \<^verbatim>\<open>undefined\<close>
  (\<^verbatim>\<open>None\<close>) when the set-up throws before the assignment.
\<close>

datatype tracer = Tracer string

section \<open>The remote platform client\<close>

record agent =
  agent_id :: string

record thread =
  thread_id :: string

text \<open>\<^verbatim>\<open>run.usage\<close> with both spellings of each counter; \<^verbatim>\<open>None\<close> is an absent or null field.\<close>

record usage =
  inputTokens :: "int option"
  input_tokens :: "int option"
  outputTokens :: "int option"
  output_tokens :: "int option"

record run =
  run_id :: "string option"
  run_status :: string
  run_usage :: "usage option"
  lastError :: jv

text \<open>
  A content block: its \<^verbatim>\<open>type\<close> and its \<^verbatim>\<open>text\<close> field, which is absent (\<^verbatim>\<open>NoText\<close>) or an
  object whose \<^verbatim>\<open>value\<close> may itself be absent.
\<close>

datatype text_field = NoText | TextObj "string option"

record block =
  btype :: string
  btext :: text_field

text \<open>A message: its role and its content, \<^verbatim>\<open>None\<close> when \<^verbatim>\<open>content\<close> is not an array.\<close>

record message =
  role :: string
  content :: "block list option"

text \<open>
  The client is a stub: each method answers from its arguments, with \<^verbatim>\<open>Inl\<close> for a rejected
  promise. \<^verbatim>\<open>messages_list\<close> is the async iterable of \<^verbatim>\<open>messages.list\<close>: the messages it
  yields, in order, and the error it throws after them, if any. No method is called twice in
  one request, so a stub of this shape covers every behaviour of the platform in a request.
\<close>

record remote =
  getAgent :: "string \<Rightarrow> err + agent"
  threads_create :: "err + thread"
  messages_create :: "string \<Rightarrow> string \<Rightarrow> string \<Rightarrow> err + unit"
  runs_createAndPoll :: "string \<Rightarrow> string \<Rightarrow> err + run"
  messages_list :: "string \<Rightarrow> string \<Rightarrow> nat \<Rightarrow> message list \<times> err option"

text \<open>The calls made on the client, with their arguments, in the order they are made.\<close>

datatype call =
    GetAgent string
  | ThreadsCreate
  | MessagesCreate string string string
  | CreateAndPoll string string
  | MessagesList string string nat

record settings =
  projectEndpoint :: string
  agentId :: string
  feedbackAgentId :: string

text \<open>The part of \<^verbatim>\<open>settings\<close> that names agents, read from the environment.\<close>

definition load_settings :: "(string \<rightharpoonup> string) \<Rightarrow> settings" where
  "load_settings env =
     \<lparr>projectEndpoint = nullish_default (env ''PROJECT_ENDPOINT'') ''project_endpoint'',
      agentId = nullish_default (env ''AGENT_ID'') ''agent_id'',
      feedbackAgentId =
        nullish_default (nullish_or (env ''FEEDBACK_AGENT_ID'') (env ''AGENT_ID'')) ''agent_id''\<rparr>"

section \<open>The request context\<close>

datatype logged = LogValue jv | LogError err

text \<open>
  What a handler can change outside the span: the response (\<^verbatim>\<open>res.status\<close>, \<^verbatim>\<open>res.json\<close>; the
  status code of a fresh response is 200 and \<^verbatim>\<open>res_body\<close> is \<^verbatim>\<open>None\<close> until a body is sent), the
  errors handed to \<^verbatim>\<open>next\<close>, the calls made on the remote client, and the console.
\<close>

record ctx =
  res_code :: nat
  res_body :: "jv option"
  forwarded :: "err list"
  calls :: "call list"
  console :: "(string \<times> logged) list"

definition fresh_ctx :: ctx where
  "fresh_ctx = \<lparr>res_code = 200, res_body = None, forwarded = [], calls = [], console = []\<rparr>"

definition res_status :: "nat \<Rightarrow> ctx \<Rightarrow> ctx" where
  "res_status n c = c\<lparr>res_code := n\<rparr>"

definition res_json :: "jv \<Rightarrow> ctx \<Rightarrow> ctx" where
  "res_json b c = c\<lparr>res_body := Some b\<rparr>"

definition next_error :: "err \<Rightarrow> ctx \<Rightarrow> ctx" where
  "next_error e c = c\<lparr>forwarded := forwarded c @ [e]\<rparr>"

definition log_call :: "call \<Rightarrow> ctx \<Rightarrow> ctx" where
  "log_call x c = c\<lparr>calls := calls c @ [x]\<rparr>"

definition console_error :: "string \<Rightarrow> logged \<Rightarrow> ctx \<Rightarrow> ctx" where
  "console_error l v c = c\<lparr>console := console c @ [(l, v)]\<rparr>"

text \<open>
  A handler gets the span and the context; it returns the error it threw, if any, with the
  span and the context as it left them.
\<close>

type_synonym handler = "span \<Rightarrow> ctx \<Rightarrow> err option \<times> span \<times> ctx"

section \<open>withSpan\<close>

text \<open>Reading \<^verbatim>\<open>tracer.startActiveSpan\<close> when \<^verbatim>\<open>tracer\<close> is \<^verbatim>\<open>undefined\<close>.\<close>

definition tracer_type_error :: err where
  "tracer_type_error =
     JsError ''TypeError'' ''Cannot read properties of undefined (reading 'startActiveSpan')''"

text \<open>
  \<^verbatim>\<open>withSpan(name, handler)\<close>, lines 61 to 82. The result is the rejection of the returned
  promise, if any, the span as it was when the callback finished (\<^verbatim>\<open>None\<close> when no span was
  opened), and the context.
\<close>

definition withSpan ::
  "tracer option \<Rightarrow> string \<Rightarrow> handler \<Rightarrow> ctx \<Rightarrow> err option \<times> span option \<times> ctx" where
  "withSpan tr n h c =
     (case tr of
        None \<Rightarrow> (Some tracer_type_error, None, c)
      | Some t \<Rightarrow>
          (case h (startSpan n SERVER) c of
             (None, s1, c1) \<Rightarrow> (None, Some (span_end s1), c1)
           | (Some e, s1, c1) \<Rightarrow>
               (let s2 = setStatus (Status ERROR (Some (nullish_default (message_of e) (String_of e)))) s1;
                    s3 = recordException e s2;
                    c2 = next_error e c1
                in (None, Some (span_end s3), c2))))"

section \<open>getLatestAssistantMessageText\<close>

text \<open>
  The condition \<^verbatim>\<open>contentBlock.type === "text" && contentBlock.text?.value\<close> of line 225: the
  value has to be truthy, and a string is truthy when it is not empty.
\<close>

fun usable_text :: "block \<Rightarrow> string option" where
  "usable_text b =
     (if btype b = ''text'' then
        (case btext b of
           NoText \<Rightarrow> None
         | TextObj None \<Rightarrow> None
         | TextObj (Some v) \<Rightarrow> (if v = [] then None else Some v))
      else None)"

text \<open>The inner loop, lines 224 to 228.\<close>

fun first_text :: "block list \<Rightarrow> string option" where
  "first_text [] = None"
| "first_text (b # bs) = (case usable_text b of Some v \<Rightarrow> Some v | None \<Rightarrow> first_text bs)"

text \<open>The outer loop, lines 219 to 229.\<close>

fun scan_messages :: "message list \<Rightarrow> string option" where
  "scan_messages [] = None"
| "scan_messages (m # ms) =
     (if role m \<noteq> ''assistant'' \<or> content m = None then scan_messages ms
      else (case content m of
              None \<Rightarrow> scan_messages ms
            | Some bs \<Rightarrow> (case first_text bs of Some v \<Rightarrow> Some v | None \<Rightarrow> scan_messages ms)))"

definition no_assistant_reply :: err where
  "no_assistant_reply = JsError ''Error'' ''No assistant response was found for this thread''"

definition getLatestAssistantMessageText :: "remote \<Rightarrow> string \<Rightarrow> ctx \<Rightarrow> (err + string) \<times> ctx" where
  "getLatestAssistantMessageText rc threadId c =
     (let c1 = log_call (MessagesList threadId ''desc'' 20) c;
          (ms, fault) = messages_list rc threadId ''desc'' 20
      in (case scan_messages ms of
            Some v \<Rightarrow> (Inr v, c1)
          | None \<Rightarrow>
              (case fault of
                 Some e \<Rightarrow> (Inl e, c1)
               | None \<Rightarrow> (Inl no_assistant_reply, c1))))"

section \<open>The /joke route\<close>

definition systemPrompt :: string where
  "systemPrompt =
     ''You are a standup comedian, return back only one joke. The user will either like or dislike the joke''"

text \<open>Lines 93 to 104: the attributes and the event recorded once the thread exists.\<close>

definition record_thread :: "agent \<Rightarrow> thread \<Rightarrow> span \<Rightarrow> span" where
  "record_thread a th s =
     addEvent ''gen_ai.system.message''
       [(''gen_ai.event.content'',
           AJson (JObj [(''message'', JStr systemPrompt), (''role'', JStr ''system'')])),
        (''gen_ai.thread.id'', AStr (thread_id th))]
       (setAttribute ''gen_ai.agent.id'' (AStr (agent_id a))
         (setAttribute ''gen_ai.thread.id'' (AStr (thread_id th))
           (setAttribute ''gen_ai.provider.name'' (AStr ''azure_ai_projects_agents'')
             (setAttribute ''gen_ai.system'' (AStr ''azure_ai_projects'') s))))"

text \<open>Lines 118 to 121: \<^verbatim>\<open>if (run.id)\<close> holds for a non-empty string.\<close>

definition record_run :: "thread \<Rightarrow> run \<Rightarrow> span \<Rightarrow> span" where
  "record_run th r s =
     (case run_id r of
        None \<Rightarrow> s
      | Some i \<Rightarrow>
          (if i = [] then s
           else setAttribute ''gen_ai.response.id'' (AStr (thread_id th @ ''/'' @ i))
                  (setAttribute ''gen_ai.thread.run.id'' (AStr i) s)))"

text \<open>Lines 124 to 132.\<close>

definition record_usage :: "usage \<Rightarrow> span \<Rightarrow> span" where
  "record_usage u s =
     (let inTok = nullish_or (inputTokens u) (input_tokens u);
          outTok = nullish_or (outputTokens u) (output_tokens u);
          s1 = (case inTok of Some v \<Rightarrow> setAttribute ''gen_ai.usage.input_tokens'' (ANum v) s
                | None \<Rightarrow> s)
      in (case outTok of Some v \<Rightarrow> setAttribute ''gen_ai.usage.output_tokens'' (ANum v) s1
          | None \<Rightarrow> s1))"

text \<open>
  Reading \<^verbatim>\<open>usage.inputTokens\<close> at line 124 when \<^verbatim>\<open>run.usage\<close> is \<^verbatim>\<open>undefined\<close> or \<^verbatim>\<open>null\<close>. The
  message is the engine's; the wording of V8 for \<^verbatim>\<open>undefined\<close> stands for both.
\<close>

definition usage_type_error :: err where
  "usage_type_error =
     JsError ''TypeError'' ''Cannot read properties of undefined (reading 'inputTokens')''"

definition run_failed_body :: "run \<Rightarrow> jv" where
  "run_failed_body r = JObj [(''error'', JStr ''The agent run failed''), (''details'', lastError r)]"

definition reply_body :: "string \<Rightarrow> string \<Rightarrow> jv" where
  "reply_body messageText threadId =
     JObj [(''message'', JStr messageText), (''threadId'', JStr threadId)]"

text \<open>Lines 142 to 159: the reply is extracted, recorded and sent.\<close>

definition joke_reply :: "remote \<Rightarrow> thread \<Rightarrow> run \<Rightarrow> handler" where
  "joke_reply rc th r s c =
     (case getLatestAssistantMessageText rc (thread_id th) c of
        (Inl e, c1) \<Rightarrow> (Some e, s, c1)
      | (Inr messageText, c1) \<Rightarrow>
          (let s1 = addEvent ''gen_ai.choice''
                      [(''gen_ai.event.content'',
                          AJson (JObj [(''message'', JStr messageText), (''role'', JStr ''assistant'')])),
                       (''gen_ai.thread.id'', AStr (thread_id th)),
                       (''gen_ai.thread.run.id'', AStr (nullish_default (run_id r) '''')),
                       (''gen_ai.response.id'',
                          AStr (thread_id th @ ''/'' @ nullish_default (run_id r) ''''))] s;
               s2 = setStatus (Status OK None) s1
           in (None, s2, res_json (reply_body messageText (thread_id th)) c1)))"

text \<open>Lines 118 to 159: everything after the run has been polled to its end.\<close>

definition joke_after_run :: "remote \<Rightarrow> thread \<Rightarrow> run \<Rightarrow> handler" where
  "joke_after_run rc th r s c =
     (let s1 = record_run th r s
      in (case run_usage r of
            None \<Rightarrow> (Some usage_type_error, s1, c)
          | Some u \<Rightarrow>
              (let s2 = record_usage u s1
               in (if run_status r = ''failed'' then
                     (None, s2,
                      res_json (run_failed_body r)
                        (res_status 500 (console_error ''Run failed'' (LogValue (lastError r)) c)))
                   else joke_reply rc th r s2 c))))"

text \<open>Lines 88 to 159: the body of the \<^verbatim>\<open>try\<close> block of the handler.\<close>

definition joke_try :: "settings \<Rightarrow> remote \<Rightarrow> handler" where
  "joke_try cfg rc s c =
     (let c1 = log_call (GetAgent (agentId cfg)) c
      in (case getAgent rc (agentId cfg) of
            Inl e \<Rightarrow> (Some e, s, c1)
          | Inr a \<Rightarrow>
              (let c2 = log_call ThreadsCreate c1
               in (case threads_create rc of
                     Inl e \<Rightarrow> (Some e, s, c2)
                   | Inr th \<Rightarrow>
                       (let s1 = record_thread a th s;
                            c3 = log_call (MessagesCreate (thread_id th) ''assistant'' systemPrompt) c2
                        in (case messages_create rc (thread_id th) ''assistant'' systemPrompt of
                              Inl e \<Rightarrow> (Some e, s1, c3)
                            | Inr u \<Rightarrow>
                                (let c4 = log_call (CreateAndPoll (thread_id th) (agent_id a)) c3
                                 in (case runs_createAndPoll rc (thread_id th) (agent_id a) of
                                       Inl e \<Rightarrow> (Some e, s1, c4)
                                     | Inr r \<Rightarrow> joke_after_run rc th r s1 c4))))))))"

text \<open>
  Lines 86 to 167: the handler given to \<^verbatim>\<open>withSpan\<close>. Its \<^verbatim>\<open>catch\<close> block sets the status and
  calls \<^verbatim>\<open>next(error)\<close>; it does not throw again, so the handler always returns normally.
\<close>

definition joke_handler :: "settings \<Rightarrow> remote \<Rightarrow> handler" where
  "joke_handler cfg rc s c =
     (case joke_try cfg rc s c of
        (None, s1, c1) \<Rightarrow> (None, s1, c1)
      | (Some e, s1, c1) \<Rightarrow>
          (None,
           setStatus (Status ERROR (Some (nullish_default (message_of e) ''Unhandled error in /joke''))) s1,
           next_error e c1))"

section \<open>The generic error handler and the dispatch of a request\<close>

text \<open>Lines 235 to 241.\<close>

definition errorHandler :: "err \<Rightarrow> ctx \<Rightarrow> ctx" where
  "errorHandler e c =
     res_json (JObj [(''error'', JStr ''Internal Server Error''),
                     (''msg'', JStr (nullish_default (message_of e) (String_of e)))])
       (res_status 500 (console_error ''Unhandled error:'' (LogError e) c))"

text \<open>
  Express runs the error-handling middleware registered last with the error a route handed to
  \<^verbatim>\<open>next\<close>.
\<close>

definition dispatch :: "ctx \<Rightarrow> ctx" where
  "dispatch c = (case forwarded c of [] \<Rightarrow> c | e # es \<Rightarrow> errorHandler e c)"

text \<open>\<^verbatim>\<open>GET /joke\<close>, lines 84 to 168, on a fresh response.\<close>

definition get_joke ::
  "tracer option \<Rightarrow> settings \<Rightarrow> remote \<Rightarrow> ctx \<Rightarrow> err option \<times> span option \<times> ctx" where
  "get_joke tr cfg rc c =
     (case withSpan tr ''joke.run'' (joke_handler cfg rc) c of
        (rej, sp, c1) \<Rightarrow> (rej, sp, dispatch c1))"

section \<open>The /feedback route\<close>

text \<open>
  A query parameter is a string or absent; \<^verbatim>\<open>!reaction\<close> holds when it is absent or empty.
\<close>

definition falsy :: "string option \<Rightarrow> bool" where
  "falsy q = (case q of None \<Rightarrow> True | Some v \<Rightarrow> v = [])"

definition feedback_text :: "string \<Rightarrow> string" where
  "feedback_text reaction =
     ''The result of the joke was: '' @ reaction @ '', return another joke based on this information''"

definition bad_request_body :: jv where
  "bad_request_body =
     JObj [(''error'', JStr ''Both 'reaction' and 'threadId' query params are required'')]"

text \<open>Lines 180 to 207: the body of the \<^verbatim>\<open>try\<close> block; \<^verbatim>\<open>Some e\<close> is the error it throws.\<close>

definition feedback_try :: "settings \<Rightarrow> remote \<Rightarrow> string \<Rightarrow> string \<Rightarrow> ctx \<Rightarrow> err option \<times> ctx" where
  "feedback_try cfg rc reaction threadId c =
     (let c1 = log_call (MessagesCreate threadId ''assistant'' (feedback_text reaction)) c
      in (case messages_create rc threadId ''assistant'' (feedback_text reaction) of
            Inl e \<Rightarrow> (Some e, c1)
          | Inr u \<Rightarrow>
              (let c2 = log_call (GetAgent (feedbackAgentId cfg)) c1
               in (case getAgent rc (feedbackAgentId cfg) of
                     Inl e \<Rightarrow> (Some e, c2)
                   | Inr a \<Rightarrow>
                       (let c3 = log_call (CreateAndPoll threadId (agent_id a)) c2
                        in (case runs_createAndPoll rc threadId (agent_id a) of
                              Inl e \<Rightarrow> (Some e, c3)
                            | Inr r \<Rightarrow>
                                (if run_status r = ''failed'' then
                                   (None,
                                    res_json (run_failed_body r)
                                      (res_status 500
                                        (console_error ''Run failed'' (LogValue (lastError r)) c3)))
                                 else
                                   (case getLatestAssistantMessageText rc threadId c3 of
                                      (Inl e, c4) \<Rightarrow> (Some e, c4)
                                    | (Inr messageText, c4) \<Rightarrow>
                                        (None, res_json (reply_body messageText threadId) c4)))))))))"

text \<open>Lines 170 to 211.\<close>

definition feedback_handler ::
  "settings \<Rightarrow> remote \<Rightarrow> string option \<Rightarrow> string option \<Rightarrow> ctx \<Rightarrow> ctx" where
  "feedback_handler cfg rc reaction threadId c =
     (if falsy reaction \<or> falsy threadId then res_json bad_request_body (res_status 400 c)
      else
        (case feedback_try cfg rc (nullish_default reaction '''') (nullish_default threadId '''') c of
           (None, c1) \<Rightarrow> c1
         | (Some e, c1) \<Rightarrow> next_error e c1))"

text \<open>\<^verbatim>\<open>GET /feedback\<close> with the error handler behind it.\<close>

definition get_feedback ::
  "settings \<Rightarrow> remote \<Rightarrow> string option \<Rightarrow> string option \<Rightarrow> ctx \<Rightarrow> ctx" where
  "get_feedback cfg rc reaction threadId c = dispatch (feedback_handler cfg rc reaction threadId c)"

section \<open>Reference readings and sample inputs\<close>

text \<open>The roles given to \<^verbatim>\<open>messages.create\<close>, in the order of the calls.\<close>

fun message_roles :: "call list \<Rightarrow> string list" where
  "message_roles [] = []"
| "message_roles (MessagesCreate t ro x # cs) = ro # message_roles cs"
| "message_roles (GetAgent i # cs) = message_roles cs"
| "message_roles (ThreadsCreate # cs) = message_roles cs"
| "message_roles (CreateAndPoll t a # cs) = message_roles cs"
| "message_roles (MessagesList t ord l # cs) = message_roles cs"

text \<open>
  The reply as the specification words it: the text value of the first block tagged as text,
  among the assistant-authored messages in the order listed. A text block counts whatever its
  value is.
\<close>

definition claimed_block_texts :: "block list \<Rightarrow> string list" where
  "claimed_block_texts bs =
     concat (map (\<lambda>b. if btype b = ''text'' then
                          (case btext b of TextObj (Some v) \<Rightarrow> [v] | TextObj None \<Rightarrow> [] | NoText \<Rightarrow> [])
                        else []) bs)"

definition claimed_reply :: "message list \<Rightarrow> string option" where
  "claimed_reply ms =
     (case concat (map (\<lambda>m. if role m = ''assistant'' then
                                (case content m of Some bs \<Rightarrow> claimed_block_texts bs | None \<Rightarrow> [])
                              else []) ms) of
        [] \<Rightarrow> None
      | v # vs \<Rightarrow> Some v)"

text \<open>
  The texts the loops of \<^verbatim>\<open>getLatestAssistantMessageText\<close> can return, in the order they
  meet them: the non-empty values of the text blocks of the assistant messages whose content is
  an array.
\<close>

definition assistant_texts :: "message list \<Rightarrow> string list" where
  "assistant_texts ms =
     concat (map (\<lambda>m. if role m = ''assistant'' then
                         (case content m of Some bs \<Rightarrow> List.map_filter usable_text bs | None \<Rightarrow> [])
                       else []) ms)"

text \<open>Sample data for the end-to-end scenarios.\<close>

definition sample_settings :: settings where
  "sample_settings = load_settings Map.empty"

definition sample_tracer :: tracer where
  "sample_tracer = Tracer ''joke-api''"

definition stub_remote :: "(err + thread) \<Rightarrow> (err + run) \<Rightarrow> message list \<Rightarrow> remote" where
  "stub_remote th r ms =
     \<lparr>getAgent = (\<lambda>i. Inr \<lparr>agent_id = i\<rparr>),
      threads_create = th,
      messages_create = (\<lambda>t ro x. Inr ()),
      runs_createAndPoll = (\<lambda>t a. r),
      messages_list = (\<lambda>t ord l. (ms, None))\<rparr>"

definition text_block :: "string \<Rightarrow> block" where
  "text_block v = \<lparr>btype = ''text'', btext = TextObj (Some v)\<rparr>"

definition sample_usage :: usage where
  "sample_usage =
     \<lparr>inputTokens = Some 10, input_tokens = None, outputTokens = Some 4, output_tokens = None\<rparr>"

definition sample_run :: "string \<Rightarrow> usage option \<Rightarrow> run" where
  "sample_run st u =
     \<lparr>run_id = Some ''r1'', run_status = st, run_usage = u,
      lastError = (if st = ''failed'' then JObj [(''code'', JStr ''X'')] else JNull)\<rparr>"

definition sample_thread :: thread where
  "sample_thread = \<lparr>thread_id = ''t1''\<rparr>"

definition sample_messages :: "message list" where
  "sample_messages = [\<lparr>role = ''assistant'', content = Some [text_block ''Why did...'']\<rparr>]"

definition remote_unavailable :: err where
  "remote_unavailable = JsError ''RestError'' ''connect ECONNREFUSED''"

text \<open>A handler that only throws, and one that only returns.\<close>

definition throwing_handler :: "err \<Rightarrow> handler" where
  "throwing_handler e s c = (Some e, s, c)"

definition returning_handler :: handler where
  "returning_handler s c = (None, s, c)"

section \<open>Facts shared by the proofs\<close>

lemmas span_ops = setAttribute_def addEvent_def setStatus_def recordException_def span_end_def

lemmas ctx_ops = res_status_def res_json_def next_error_def log_call_def console_error_def

lemmas joke_defs = get_joke_def withSpan_def joke_handler_def joke_try_def joke_after_run_def
  joke_reply_def getLatestAssistantMessageText_def dispatch_def errorHandler_def

lemmas sample_defs = sample_settings_def load_settings_def sample_tracer_def stub_remote_def
  text_block_def sample_usage_def sample_run_def sample_thread_def sample_messages_def
  remote_unavailable_def

lemmas sample_eval = joke_defs sample_defs span_ops ctx_ops record_thread_def record_run_def
  record_usage_def nullish_or_def nullish_default_def startSpan_def fresh_ctx_def
  reply_body_def run_failed_body_def Let_def

text \<open>
  When \<^verbatim>\<open>telemetrySetup\<close> failed, \<^verbatim>\<open>tracer\<close> is \<^verbatim>\<open>undefined\<close>: \<^verbatim>\<open>withSpan\<close> throws before it opens a
  span, the handler is not run and no response is written. The statements about the span of a
  request are therefore made for a request served with the tracer assigned.
\<close>

lemma withSpan_without_tracer:
  "withSpan None n h c = (Some tracer_type_error, None, c)"
  "get_joke None cfg rc c = (Some tracer_type_error, None, dispatch c)"
  by (simp_all add: withSpan_def get_joke_def)

text \<open>What the recording steps leave alone on a span.\<close>

lemma record_thread_fields:
  "end_calls (record_thread a th s) = end_calls s"
  "exceptions (record_thread a th s) = exceptions s"
  "status (record_thread a th s) = status s"
  "events (record_thread a th s) = events s @ [(''gen_ai.system.message'',
       [(''gen_ai.event.content'',
           AJson (JObj [(''message'', JStr systemPrompt), (''role'', JStr ''system'')])),
        (''gen_ai.thread.id'', AStr (thread_id th))])]"
  by (simp_all add: record_thread_def span_ops)

lemma record_run_fields:
  "end_calls (record_run th r s) = end_calls s"
  "exceptions (record_run th r s) = exceptions s"
  "status (record_run th r s) = status s"
  "events (record_run th r s) = events s"
  by (simp_all add: record_run_def span_ops split: option.splits)

lemma record_usage_fields:
  "end_calls (record_usage u s) = end_calls s"
  "exceptions (record_usage u s) = exceptions s"
  "status (record_usage u s) = status s"
  "events (record_usage u s) = events s"
  by (simp_all add: record_usage_def span_ops Let_def split: option.splits)

lemmas span_fields = record_thread_fields record_run_fields record_usage_fields

text \<open>
  The text found by \<^verbatim>\<open>getLatestAssistantMessageText\<close> does not depend on the context, so
  \<^verbatim>\<open>joke_reply\<close> can be read with the extraction kept folded.
\<close>

lemma joke_reply_alt:
  "joke_reply rc th r s c =
     (case fst (getLatestAssistantMessageText rc (thread_id th) fresh_ctx) of
        Inl e \<Rightarrow> (Some e, s, log_call (MessagesList (thread_id th) ''desc'' 20) c)
      | Inr messageText \<Rightarrow>
          (None,
           setStatus (Status OK None)
             (addEvent ''gen_ai.choice''
                [(''gen_ai.event.content'',
                    AJson (JObj [(''message'', JStr messageText), (''role'', JStr ''assistant'')])),
                 (''gen_ai.thread.id'', AStr (thread_id th)),
                 (''gen_ai.thread.run.id'', AStr (nullish_default (run_id r) [])),
                 (''gen_ai.response.id'',
                    AStr (thread_id th @ ''/'' @ nullish_default (run_id r) []))] s),
           res_json (reply_body messageText (thread_id th))
             (log_call (MessagesList (thread_id th) ''desc'' 20) c)))"
  by (simp add: joke_reply_def getLatestAssistantMessageText_def Let_def
      split: prod.splits option.splits)

text \<open>The response after each stage of the /joke handler.\<close>

lemma joke_reply_response:
  assumes "joke_reply rc th r s c = (x, s', c')"
  shows "forwarded c' = forwarded c \<and> res_code c' = res_code c \<and>
         (case x of
            Some e \<Rightarrow> res_body c' = res_body c
          | None \<Rightarrow> (\<exists>text. fst (getLatestAssistantMessageText rc (thread_id th) fresh_ctx) = Inr text \<and>
                        res_body c' = Some (reply_body text (thread_id th))))"
  using assms by (auto simp: joke_reply_alt ctx_ops split: sum.splits)

lemma joke_after_run_response:
  assumes "joke_after_run rc th r s c = (x, s', c')"
  shows "forwarded c' = forwarded c \<and>
         (case x of
            Some e \<Rightarrow> res_body c' = res_body c \<and> res_code c' = res_code c
          | None \<Rightarrow> res_code c' = 500 \<or>
                    (res_code c' = res_code c \<and> run_status r \<noteq> ''failed'' \<and>
                     run_usage r \<noteq> None \<and>
                     (\<exists>text. fst (getLatestAssistantMessageText rc (thread_id th) fresh_ctx) = Inr text \<and>
                        res_body c' = Some (reply_body text (thread_id th)))))"
proof (cases "run_usage r")
  case None
  then show ?thesis using assms by (auto simp: joke_after_run_def Let_def)
next
  case (Some u)
  show ?thesis
  proof (cases "run_status r = ''failed''")
    case True
    then show ?thesis using assms Some by (auto simp: joke_after_run_def Let_def ctx_ops)
  next
    case False
    then have "joke_reply rc th r (record_usage u (record_run th r s)) c = (x, s', c')"
      using assms Some by (simp add: joke_after_run_def Let_def)
    from joke_reply_response [OF this] False Some show ?thesis
      by (auto split: option.splits)
  qed
qed

lemma joke_try_response:
  assumes "joke_try cfg rc s c = (x, s', c')"
  shows "forwarded c' = forwarded c \<and>
         (case x of
            Some e \<Rightarrow> res_body c' = res_body c \<and> res_code c' = res_code c
          | None \<Rightarrow> res_code c' = 500 \<or>
                    (res_code c' = res_code c \<and>
                     (\<exists>a th r text.
                        getAgent rc (agentId cfg) = Inr a \<and> threads_create rc = Inr th \<and>
                        messages_create rc (thread_id th) ''assistant'' systemPrompt = Inr () \<and>
                        runs_createAndPoll rc (thread_id th) (agent_id a) = Inr r \<and>
                        run_usage r \<noteq> None \<and> run_status r \<noteq> ''failed'' \<and>
                        fst (getLatestAssistantMessageText rc (thread_id th) fresh_ctx) = Inr text \<and>
                        res_body c' = Some (reply_body text (thread_id th)))))"
proof (cases "getAgent rc (agentId cfg)")
  case (Inl e)
  then show ?thesis using assms by (auto simp: joke_try_def Let_def ctx_ops)
next
  case a: (Inr a)
  show ?thesis
  proof (cases "threads_create rc")
    case (Inl e)
    then show ?thesis using assms a by (auto simp: joke_try_def Let_def ctx_ops)
  next
    case th: (Inr th)
    show ?thesis
    proof (cases "messages_create rc (thread_id th) ''assistant'' systemPrompt")
      case (Inl e)
      then show ?thesis using assms a th by (auto simp: joke_try_def Let_def ctx_ops)
    next
      case mc: (Inr u)
      show ?thesis
      proof (cases "runs_createAndPoll rc (thread_id th) (agent_id a)")
        case (Inl e)
        then show ?thesis using assms a th mc by (auto simp: joke_try_def Let_def ctx_ops)
      next
        case r: (Inr r)
        let ?c4 = "log_call (CreateAndPoll (thread_id th) (agent_id a))
                     (log_call (MessagesCreate (thread_id th) ''assistant'' systemPrompt)
                       (log_call ThreadsCreate (log_call (GetAgent (agentId cfg)) c)))"
        have "joke_after_run rc th r (record_thread a th s) ?c4 = (x, s', c')"
          using assms a th mc r by (simp add: joke_try_def Let_def)
        from joke_after_run_response [OF this] a th mc r show ?thesis
          by (cases x) (auto simp: ctx_ops)
      qed
    qed
  qed
qed

text \<open>The /joke handler never throws and never ends the span itself.\<close>

lemma joke_handler_span:
  assumes "joke_handler cfg rc s c = (x, s', c')"
  shows "x = None \<and> end_calls s' = end_calls s"
proof -
  have r: "\<And>th r s c x s' c'. joke_reply rc th r s c = (x, s', c') \<Longrightarrow> end_calls s' = end_calls s"
    by (auto simp: joke_reply_alt span_ops split: sum.splits)
  have a: "\<And>th r s c x s' c'. joke_after_run rc th r s c = (x, s', c') \<Longrightarrow> end_calls s' = end_calls s"
    by (auto simp: joke_after_run_def Let_def span_fields split: option.splits if_splits dest: r)
  have t: "\<And>s c x s' c'. joke_try cfg rc s c = (x, s', c') \<Longrightarrow> end_calls s' = end_calls s"
    by (auto simp: joke_try_def Let_def span_fields split: sum.splits dest: a)
  show ?thesis using assms
    by (auto simp: joke_handler_def span_ops split: prod.splits option.splits dest: t)
qed

text \<open>The span status of a /joke request is OK exactly when the response is the 200 one.\<close>

lemma joke_status_ok_iff:
  assumes "get_joke (Some t) cfg rc fresh_ctx = (rej, sp, c')"
  shows "\<exists>s. sp = Some s \<and> (status s = Status OK None \<longleftrightarrow> res_code c' = 200)"
  using assms
  by (auto simp: joke_defs span_ops span_fields ctx_ops startSpan_def fresh_ctx_def Let_def
      split: sum.splits option.splits prod.splits if_splits)

text \<open>No path of a /joke request records an exception on the span.\<close>

lemma joke_records_no_exception:
  assumes "get_joke tr cfg rc fresh_ctx = (rej, Some s, c')"
  shows "exceptions s = []"
  using assms
  by (auto simp: joke_defs span_ops span_fields ctx_ops startSpan_def fresh_ctx_def Let_def
      split: sum.splits option.splits prod.splits if_splits)

text \<open>The two loops against the list of usable texts.\<close>

lemma first_text_map_filter:
  "first_text bs = (case List.map_filter usable_text bs of [] \<Rightarrow> None | v # vs \<Rightarrow> Some v)"
  by (induction bs) (simp_all add: List.map_filter_simps split: option.splits del: usable_text.simps)

lemma scan_messages_texts:
  "scan_messages ms = (case assistant_texts ms of [] \<Rightarrow> None | v # vs \<Rightarrow> Some v)"
proof (induction ms)
  case Nil
  show ?case by (simp add: assistant_texts_def)
next
  case (Cons m ms)
  have tl: "assistant_texts (m # ms) =
      (if role m = ''assistant'' then
         (case content m of Some bs \<Rightarrow> List.map_filter usable_text bs | None \<Rightarrow> [])
       else []) @ assistant_texts ms"
    by (simp add: assistant_texts_def)
  show ?case
  proof (cases "role m = ''assistant''")
    case False
    then show ?thesis using Cons.IH by (simp add: tl)
  next
    case True
    show ?thesis
    proof (cases "content m")
      case None
      then show ?thesis using True Cons.IH by (simp add: tl)
    next
      case (Some bs)
      then show ?thesis using True Cons.IH
        by (cases "List.map_filter usable_text bs") (simp_all add: tl first_text_map_filter)
    qed
  qed
qed

text \<open>A page without assistant messages holds no usable text, whatever its length.\<close>

lemma no_assistant_no_texts:
  "\<forall>m \<in> set ms. role m \<noteq> ''assistant'' \<Longrightarrow> assistant_texts ms = []"
  by (induction ms) (simp_all add: assistant_texts_def)

text \<open>Attributes: a later value for a key replaces the earlier one.\<close>

lemma map_of_setAttribute:
  "map_of (attributes (setAttribute k v s)) = (map_of (attributes s))(k \<mapsto> v)"
  by (simp add: setAttribute_def update_conv')

lemma joke_reply_attributes:
  "joke_reply rc th r s c = (x, s', c') \<Longrightarrow> attributes s' = attributes s"
  by (auto simp: joke_reply_def span_ops Let_def split: prod.splits sum.splits)

lemma usage_attributes_before:
  "map_of (attributes (record_run th r (record_thread a th (startSpan n k))))
     ''gen_ai.usage.input_tokens'' = None"
  "map_of (attributes (record_run th r (record_thread a th (startSpan n k))))
     ''gen_ai.usage.output_tokens'' = None"
  by (simp_all add: record_run_def record_thread_def map_of_setAttribute addEvent_def
      startSpan_def split: option.splits)

lemma record_usage_attributes:
  "map_of (attributes (record_usage u s)) ''gen_ai.usage.input_tokens'' =
     (case inputTokens u of
        Some v \<Rightarrow> Some (ANum v)
      | None \<Rightarrow> (case input_tokens u of
                   Some v \<Rightarrow> Some (ANum v)
                 | None \<Rightarrow> map_of (attributes s) ''gen_ai.usage.input_tokens''))"
  "map_of (attributes (record_usage u s)) ''gen_ai.usage.output_tokens'' =
     (case outputTokens u of
        Some v \<Rightarrow> Some (ANum v)
      | None \<Rightarrow> (case output_tokens u of
                   Some v \<Rightarrow> Some (ANum v)
                 | None \<Rightarrow> map_of (attributes s) ''gen_ai.usage.output_tokens''))"
  by (simp_all add: record_usage_def nullish_or_def map_of_setAttribute Let_def
      split: option.splits)

lemma joke_after_run_attributes:
  assumes "run_usage r = Some u" and "joke_after_run rc th r s c = (x, s', c')"
  shows "attributes s' = attributes (record_usage u (record_run th r s))"
  using assms
  by (auto simp: joke_after_run_def Let_def split: if_splits dest: joke_reply_attributes)

text \<open>A failed run on the /feedback route: the 500 response, with no listing of messages.\<close>

lemma feedback_run_failed:
  assumes "messages_create rc ti ''assistant'' (feedback_text re) = Inr ()"
    and "getAgent rc (feedbackAgentId cfg) = Inr a"
    and "runs_createAndPoll rc ti (agent_id a) = Inr r"
    and "run_status r = ''failed''"
    and "re \<noteq> []" and "ti \<noteq> []"
  shows "get_feedback cfg rc (Some re) (Some ti) fresh_ctx =
           fresh_ctx\<lparr>res_code := 500, res_body := Some (run_failed_body r),
             calls := [MessagesCreate ti ''assistant'' (feedback_text re),
                       GetAgent (feedbackAgentId cfg), CreateAndPoll ti (agent_id a)],
             console := [(''Run failed'', LogValue (lastError r))]\<rparr>"
  using assms
  by (simp add: get_feedback_def feedback_handler_def feedback_try_def dispatch_def ctx_ops
      fresh_ctx_def nullish_default_def falsy_def Let_def)

text \<open>
  A failed run on the /joke route, when the run has a usage record: the 500 run-failed
  response, nothing handed to \<^verbatim>\<open>next\<close>, and no listing of messages.
\<close>

lemma joke_run_failed_with_usage:
  assumes "getAgent rc (agentId cfg) = Inr a"
    and "threads_create rc = Inr th"
    and "messages_create rc (thread_id th) ''assistant'' systemPrompt = Inr ()"
    and "runs_createAndPoll rc (thread_id th) (agent_id a) = Inr r"
    and "run_usage r = Some u" and "run_status r = ''failed''"
  shows "snd (snd (get_joke (Some t) cfg rc fresh_ctx)) =
           fresh_ctx\<lparr>res_code := 500, res_body := Some (run_failed_body r),
             calls := [GetAgent (agentId cfg), ThreadsCreate,
                       MessagesCreate (thread_id th) ''assistant'' systemPrompt,
                       CreateAndPoll (thread_id th) (agent_id a)],
             console := [(''Run failed'', LogValue (lastError r))]\<rparr>"
  using assms
  by (simp add: get_joke_def withSpan_def joke_handler_def joke_try_def joke_after_run_def
      dispatch_def ctx_ops fresh_ctx_def Let_def)

section \<open>C1: the role of the injected instruction message\<close>

text \<open>
  C1, as amended. In every /joke request that gets its agent and its thread, the first three
  calls on the client are the agent look-up, the thread creation and the append of the persona
  prompt to that thread, and the role argument of the append is \<^verbatim>\<open>assistant\<close>; it is the only
  append of the request. The \<^verbatim>\<open>gen_ai.system.message\<close> event, the first event of the span,
  records the same prompt with the role \<^verbatim>\<open>system\<close>: the two roles differ.
\<close>

theorem joke_prompt_role:
  assumes "getAgent rc (agentId cfg) = Inr a" and "threads_create rc = Inr th"
  shows "\<exists>s c'. get_joke (Some t) cfg rc fresh_ctx = (None, Some s, c') \<and>
           message_roles (calls c') = [''assistant''] \<and>
           take 3 (calls c') =
             [GetAgent (agentId cfg), ThreadsCreate,
              MessagesCreate (thread_id th) ''assistant'' systemPrompt] \<and>
           hd (events s) =
             (''gen_ai.system.message'',
              [(''gen_ai.event.content'',
                  AJson (JObj [(''message'', JStr systemPrompt), (''role'', JStr ''system'')])),
               (''gen_ai.thread.id'', AStr (thread_id th))])"
  using assms
  by (auto simp: joke_defs span_ops span_fields ctx_ops startSpan_def fresh_ctx_def Let_def
      split: sum.splits option.splits prod.splits)

theorem joke_prompt_role_witness:
  "getAgent (stub_remote (Inr sample_thread) (Inl remote_unavailable) []) (agentId sample_settings) =
     Inr \<lparr>agent_id = ''agent_id''\<rparr>
   \<and> threads_create (stub_remote (Inr sample_thread) (Inl remote_unavailable) []) = Inr sample_thread
   \<and> calls (snd (snd (get_joke (Some sample_tracer) sample_settings
        (stub_remote (Inr sample_thread) (Inl remote_unavailable) []) fresh_ctx))) =
       [GetAgent ''agent_id'', ThreadsCreate, MessagesCreate ''t1'' ''assistant'' systemPrompt,
        CreateAndPoll ''t1'' ''agent_id'']
   \<and> map_option events (fst (snd (get_joke (Some sample_tracer) sample_settings
        (stub_remote (Inr sample_thread) (Inl remote_unavailable) []) fresh_ctx))) =
       Some [(''gen_ai.system.message'',
              [(''gen_ai.event.content'',
                  AJson (JObj [(''message'', JStr systemPrompt), (''role'', JStr ''system'')])),
               (''gen_ai.thread.id'', AStr ''t1'')])]"
  using joke_prompt_role [of "stub_remote (Inr sample_thread) (Inl remote_unavailable) []"
      sample_settings "\<lparr>agent_id = ''agent_id''\<rparr>" sample_thread sample_tracer]
  by (simp add: sample_eval)

text \<open>
  C1 as stated fails: in the end-to-end scenario (thread \<^verbatim>\<open>t1\<close>, a completed run, one assistant
  message) the only role handed to \<^verbatim>\<open>messages.create\<close> is \<^verbatim>\<open>assistant\<close>, and no append with the
  role \<^verbatim>\<open>system\<close> is made.
\<close>

theorem joke_prompt_role_counterexample:
  "message_roles (calls (snd (snd (get_joke (Some sample_tracer) sample_settings
       (stub_remote (Inr sample_thread) (Inr (sample_run ''completed'' (Some sample_usage)))
          sample_messages) fresh_ctx)))) = [''assistant'']
   \<and> MessagesCreate ''t1'' ''system'' systemPrompt \<notin>
       set (calls (snd (snd (get_joke (Some sample_tracer) sample_settings
         (stub_remote (Inr sample_thread) (Inr (sample_run ''completed'' (Some sample_usage)))
            sample_messages) fresh_ctx))))"
  by (simp add: sample_eval)

section \<open>C2: the span status after a normal return\<close>

text \<open>
  C2, as amended. \<^verbatim>\<open>withSpan\<close> sets no status when the wrapped operation returns without
  throwing: it ends the span as the operation left it. In a /joke request the status of the
  closed span is OK exactly when the response is the 200 one; when the run is failed (and has
  a usage record) the 500 run-failed response is returned without throwing, nothing is handed
  to \<^verbatim>\<open>next\<close>, and the span is closed once with its status still UNSET.
\<close>

theorem span_status_left_as_set:
  "(h (startSpan n SERVER) c = (None, s1, c1) \<longrightarrow>
      withSpan (Some t) n h c = (None, Some (s1\<lparr>end_calls := Suc (end_calls s1)\<rparr>), c1))
   \<and> (get_joke (Some t) cfg rc fresh_ctx = (rej, sp, c') \<longrightarrow>
       (\<exists>s. sp = Some s \<and> (status s = Status OK None \<longleftrightarrow> res_code c' = 200)))
   \<and> (getAgent rc (agentId cfg) = Inr a \<and> threads_create rc = Inr th \<and>
       messages_create rc (thread_id th) ''assistant'' systemPrompt = Inr () \<and>
       runs_createAndPoll rc (thread_id th) (agent_id a) = Inr r \<and>
       run_usage r = Some u \<and> run_status r = ''failed'' \<longrightarrow>
       (\<exists>s c''. get_joke (Some t) cfg rc fresh_ctx = (None, Some s, c'') \<and>
           status s = Status UNSET None \<and> end_calls s = 1 \<and>
           res_code c'' = 500 \<and> res_body c'' = Some (run_failed_body r) \<and> forwarded c'' = []))"
proof (intro conjI impI)
  assume "h (startSpan n SERVER) c = (None, s1, c1)"
  then show "withSpan (Some t) n h c = (None, Some (s1\<lparr>end_calls := Suc (end_calls s1)\<rparr>), c1)"
    by (simp add: withSpan_def span_end_def)
next
  assume "get_joke (Some t) cfg rc fresh_ctx = (rej, sp, c')"
  then show "\<exists>s. sp = Some s \<and> (status s = Status OK None \<longleftrightarrow> res_code c' = 200)"
    by (rule joke_status_ok_iff)
next
  assume "getAgent rc (agentId cfg) = Inr a \<and> threads_create rc = Inr th \<and>
       messages_create rc (thread_id th) ''assistant'' systemPrompt = Inr () \<and>
       runs_createAndPoll rc (thread_id th) (agent_id a) = Inr r \<and>
       run_usage r = Some u \<and> run_status r = ''failed''"
  then show "\<exists>s c''. get_joke (Some t) cfg rc fresh_ctx = (None, Some s, c'') \<and>
           status s = Status UNSET None \<and> end_calls s = 1 \<and>
           res_code c'' = 500 \<and> res_body c'' = Some (run_failed_body r) \<and> forwarded c'' = []"
    by (auto simp: withSpan_def span_end_def get_joke_def joke_handler_def joke_try_def
        joke_after_run_def span_fields startSpan_def dispatch_def ctx_ops fresh_ctx_def Let_def)
qed

theorem span_status_left_as_set_witness:
  "returning_handler (startSpan ''joke.run'' SERVER) fresh_ctx =
     (None, startSpan ''joke.run'' SERVER, fresh_ctx)
   \<and> withSpan (Some sample_tracer) ''joke.run'' returning_handler fresh_ctx =
       (None, Some ((startSpan ''joke.run'' SERVER)\<lparr>end_calls := 1\<rparr>), fresh_ctx)
   \<and> run_usage (sample_run ''failed'' (Some sample_usage)) = Some sample_usage
   \<and> run_status (sample_run ''failed'' (Some sample_usage)) = ''failed''
   \<and> map_option status (fst (snd (get_joke (Some sample_tracer) sample_settings
        (stub_remote (Inr sample_thread) (Inr (sample_run ''failed'' (Some sample_usage)))
           sample_messages) fresh_ctx))) = Some (Status UNSET None)
   \<and> res_code (snd (snd (get_joke (Some sample_tracer) sample_settings
        (stub_remote (Inr sample_thread) (Inr (sample_run ''failed'' (Some sample_usage)))
           sample_messages) fresh_ctx))) = 500"
  using span_status_left_as_set [of returning_handler "''joke.run''" fresh_ctx
      "startSpan ''joke.run'' SERVER" fresh_ctx sample_tracer sample_settings
      "stub_remote (Inr sample_thread) (Inr (sample_run ''failed'' (Some sample_usage))) sample_messages"
      None
      "fst (snd (get_joke (Some sample_tracer) sample_settings
        (stub_remote (Inr sample_thread) (Inr (sample_run ''failed'' (Some sample_usage)))
           sample_messages) fresh_ctx))"
      "snd (snd (get_joke (Some sample_tracer) sample_settings
        (stub_remote (Inr sample_thread) (Inr (sample_run ''failed'' (Some sample_usage)))
           sample_messages) fresh_ctx))"
      "\<lparr>agent_id = ''agent_id''\<rparr>" sample_thread
      "sample_run ''failed'' (Some sample_usage)" sample_usage]
  by (simp add: sample_eval returning_handler_def)

text \<open>
  C2 as stated fails: in the end-to-end failure scenario (run failed, last error
  \<^verbatim>\<open>{code: "X"}\<close>) the handler returns the 500 run-failed response without throwing, and the
  span is closed with the status UNSET, not OK.
\<close>

theorem span_status_counterexample:
  "map_option status (fst (snd (get_joke (Some sample_tracer) sample_settings
       (stub_remote (Inr sample_thread) (Inr (sample_run ''failed'' (Some sample_usage)))
          sample_messages) fresh_ctx))) = Some (Status UNSET None)
   \<and> res_code (snd (snd (get_joke (Some sample_tracer) sample_settings
       (stub_remote (Inr sample_thread) (Inr (sample_run ''failed'' (Some sample_usage)))
          sample_messages) fresh_ctx))) = 500
   \<and> res_body (snd (snd (get_joke (Some sample_tracer) sample_settings
       (stub_remote (Inr sample_thread) (Inr (sample_run ''failed'' (Some sample_usage)))
          sample_messages) fresh_ctx))) =
       Some (JObj [(''error'', JStr ''The agent run failed''),
                   (''details'', JObj [(''code'', JStr ''X'')])])
   \<and> forwarded (snd (snd (get_joke (Some sample_tracer) sample_settings
       (stub_remote (Inr sample_thread) (Inr (sample_run ''failed'' (Some sample_usage)))
          sample_messages) fresh_ctx))) = []"
  by (simp add: sample_eval)

section \<open>C3: extracting the latest assistant reply\<close>

text \<open>
  C3, as amended. \<^verbatim>\<open>getLatestAssistantMessageText\<close> makes one call, listing the thread's
  messages newest first with the limit 20, and returns the first non-empty text value found
  among the text blocks of the assistant-authored messages whose content is an array, in the
  order listed: a text block with an empty or missing value is passed over, and so is an
  assistant message without a usable text block. When there is no such value it fails, with
  the error of the listing if the listing threw, and with the no-assistant-reply error
  otherwise.
\<close>

theorem reply_extractor_result:
  assumes "messages_list rc threadId ''desc'' 20 = (ms, fault)"
  shows "getLatestAssistantMessageText rc threadId c =
           ((case assistant_texts ms of
               v # vs \<Rightarrow> Inr v
             | [] \<Rightarrow> (case fault of None \<Rightarrow> Inl no_assistant_reply | Some e \<Rightarrow> Inl e)),
            c\<lparr>calls := calls c @ [MessagesList threadId ''desc'' 20]\<rparr>)"
  using assms
  by (simp add: getLatestAssistantMessageText_def log_call_def scan_messages_texts
      split: list.splits option.splits)

text \<open>
  The third-newest message is the first assistant-authored one and has two text blocks: the
  text of its first block is returned.
\<close>

theorem reply_extractor_result_witness:
  "messages_list (stub_remote (Inr sample_thread) (Inl remote_unavailable)
       [\<lparr>role = ''user'', content = Some [text_block ''hi'']\<rparr>,
        \<lparr>role = ''system'', content = Some [text_block ''be funny'']\<rparr>,
        \<lparr>role = ''assistant'', content = Some [text_block ''first'', text_block ''second'']\<rparr>])
     ''t1'' ''desc'' 20 =
     ([\<lparr>role = ''user'', content = Some [text_block ''hi'']\<rparr>,
        \<lparr>role = ''system'', content = Some [text_block ''be funny'']\<rparr>,
        \<lparr>role = ''assistant'', content = Some [text_block ''first'', text_block ''second'']\<rparr>], None)
   \<and> getLatestAssistantMessageText (stub_remote (Inr sample_thread) (Inl remote_unavailable)
       [\<lparr>role = ''user'', content = Some [text_block ''hi'']\<rparr>,
        \<lparr>role = ''system'', content = Some [text_block ''be funny'']\<rparr>,
        \<lparr>role = ''assistant'', content = Some [text_block ''first'', text_block ''second'']\<rparr>])
       ''t1'' fresh_ctx =
      (Inr ''first'', fresh_ctx\<lparr>calls := [MessagesList ''t1'' ''desc'' 20]\<rparr>)"
proof -
  let ?ms = "[\<lparr>role = ''user'', content = Some [text_block ''hi'']\<rparr>,
        \<lparr>role = ''system'', content = Some [text_block ''be funny'']\<rparr>,
        \<lparr>role = ''assistant'', content = Some [text_block ''first'', text_block ''second'']\<rparr>]"
  let ?rc = "stub_remote (Inr sample_thread) (Inl remote_unavailable) ?ms"
  have h: "messages_list ?rc ''t1'' ''desc'' 20 = (?ms, None)"
    by (simp add: stub_remote_def)
  have t: "assistant_texts ?ms = [''first'', ''second'']"
    by (simp add: assistant_texts_def text_block_def List.map_filter_simps)
  show ?thesis
    using h reply_extractor_result [OF h, of fresh_ctx]
    by (simp add: t fresh_ctx_def)
qed

text \<open>
  C3 as stated fails: for an assistant message whose first text block has the empty value and
  whose second has the value \<^verbatim>\<open>b\<close>, the text value of the first textual block is the empty
  string, and the function returns \<^verbatim>\<open>b\<close>.
\<close>

theorem reply_extractor_counterexample:
  "fst (getLatestAssistantMessageText
          (stub_remote (Inr sample_thread) (Inl remote_unavailable)
             [\<lparr>role = ''assistant'', content = Some [text_block '''', text_block ''b'']\<rparr>])
          ''t1'' fresh_ctx) = Inr ''b''
   \<and> claimed_reply [\<lparr>role = ''assistant'', content = Some [text_block '''', text_block ''b'']\<rparr>]
       = Some ''''"
  by (simp add: getLatestAssistantMessageText_def stub_remote_def text_block_def
      claimed_reply_def claimed_block_texts_def)

section \<open>C4: a failed run\<close>

text \<open>
  C4 does not hold on the /joke route: for a run that is failed and has no usage record, the
  read of the usage counters throws before the status is looked at. The handler's own
  \<^verbatim>\<open>catch\<close> sets the span status to ERROR and hands the error to the generic error handler,
  which answers 500 with the internal-server-error body instead of the run-failed body.
\<close>

theorem joke_failed_run_without_usage:
  "res_body (snd (snd (get_joke (Some sample_tracer) sample_settings
       (stub_remote (Inr sample_thread) (Inr (sample_run ''failed'' None)) sample_messages)
       fresh_ctx))) =
     Some (JObj [(''error'', JStr ''Internal Server Error''),
                 (''msg'', JStr ''Cannot read properties of undefined (reading 'inputTokens')'')])
   \<and> forwarded (snd (snd (get_joke (Some sample_tracer) sample_settings
       (stub_remote (Inr sample_thread) (Inr (sample_run ''failed'' None)) sample_messages)
       fresh_ctx))) = [usage_type_error]
   \<and> map_option status (fst (snd (get_joke (Some sample_tracer) sample_settings
       (stub_remote (Inr sample_thread) (Inr (sample_run ''failed'' None)) sample_messages)
       fresh_ctx))) =
     Some (Status ERROR (Some ''Cannot read properties of undefined (reading 'inputTokens')''))"
  by (simp add: sample_eval usage_type_error_def)

section \<open>C5: /feedback without its parameters\<close>

text \<open>
  C5. When the \<^verbatim>\<open>reaction\<close> or the \<^verbatim>\<open>threadId\<close> query parameter is absent or empty, the
  /feedback handler only sets the status 400 and sends the error body: the rest of the context
  is unchanged, so no call on the remote client is made, nothing is handed to \<^verbatim>\<open>next\<close>, and a
  request on a fresh response ends with an empty list of calls. Query parameters are strings.
\<close>

theorem feedback_missing_param:
  assumes "falsy reaction \<or> falsy threadId"
  shows "feedback_handler cfg rc reaction threadId c =
           c\<lparr>res_code := 400, res_body := Some bad_request_body\<rparr>
         \<and> get_feedback cfg rc reaction threadId fresh_ctx =
             fresh_ctx\<lparr>res_code := 400, res_body := Some bad_request_body\<rparr>
         \<and> calls (get_feedback cfg rc reaction threadId fresh_ctx) = []"
  using assms
  by (simp add: feedback_handler_def get_feedback_def dispatch_def ctx_ops fresh_ctx_def)

theorem feedback_missing_param_witness:
  "(falsy (Some ''like'') \<or> falsy None)
   \<and> res_code (get_feedback sample_settings
        (stub_remote (Inr sample_thread) (Inr (sample_run ''completed'' None)) sample_messages)
        (Some ''like'') None fresh_ctx) = 400
   \<and> calls (get_feedback sample_settings
        (stub_remote (Inr sample_thread) (Inr (sample_run ''completed'' None)) sample_messages)
        (Some ''like'') None fresh_ctx) = []"
proof -
  have h: "falsy (Some ''like'') \<or> falsy None" by (simp add: falsy_def)
  show ?thesis
    using h feedback_missing_param [OF h, of sample_settings
        "stub_remote (Inr sample_thread) (Inr (sample_run ''completed'' None)) sample_messages" fresh_ctx]
    by (simp add: fresh_ctx_def)
qed

section \<open>C6: withSpan closes the span once and forwards what is thrown\<close>

text \<open>
  C6. With a tracer, \<^verbatim>\<open>withSpan\<close> opens one span and makes exactly one call of \<^verbatim>\<open>span.end()\<close>,
  after the wrapped operation, whether it returned or threw; the returned promise is not
  rejected. When the operation threw \<^verbatim>\<open>e\<close>, the span status is ERROR with the message of \<^verbatim>\<open>e\<close>
  (\<^verbatim>\<open>String(e)\<close> when it has none), \<^verbatim>\<open>e\<close> itself is recorded on the span as an exception, and
  \<^verbatim>\<open>e\<close> is handed unchanged to \<^verbatim>\<open>next\<close>, with the response untouched. For the /joke route,
  whose handler never ends the span, the span of every request is ended exactly once.
\<close>

theorem withSpan_closes_once_and_forwards:
  "(h (startSpan n SERVER) c = (thrown, s1, c1) \<longrightarrow>
      (\<exists>s c'. withSpan (Some t) n h c = (None, Some s, c') \<and>
         end_calls s = Suc (end_calls s1) \<and>
         (thrown = None \<longrightarrow> c' = c1 \<and> exceptions s = exceptions s1) \<and>
         (\<forall>e. thrown = Some e \<longrightarrow>
            status s = Status ERROR (Some (case message_of e of Some m \<Rightarrow> m | None \<Rightarrow> String_of e)) \<and>
            exceptions s = exceptions s1 @ [e] \<and>
            forwarded c' = forwarded c1 @ [e] \<and>
            res_code c' = res_code c1 \<and> res_body c' = res_body c1)))
   \<and> (get_joke (Some t) cfg rc c0 = (rej, sp, c2) \<longrightarrow>
        rej = None \<and> (\<exists>s. sp = Some s \<and> end_calls s = 1))"
proof (rule conjI; rule impI)
  assume "h (startSpan n SERVER) c = (thrown, s1, c1)"
  then show "\<exists>s c'. withSpan (Some t) n h c = (None, Some s, c') \<and>
         end_calls s = Suc (end_calls s1) \<and>
         (thrown = None \<longrightarrow> c' = c1 \<and> exceptions s = exceptions s1) \<and>
         (\<forall>e. thrown = Some e \<longrightarrow>
            status s = Status ERROR (Some (case message_of e of Some m \<Rightarrow> m | None \<Rightarrow> String_of e)) \<and>
            exceptions s = exceptions s1 @ [e] \<and>
            forwarded c' = forwarded c1 @ [e] \<and>
            res_code c' = res_code c1 \<and> res_body c' = res_body c1)"
    by (cases thrown) (simp_all add: withSpan_def span_ops ctx_ops nullish_default_def Let_def)
next
  assume g: "get_joke (Some t) cfg rc c0 = (rej, sp, c2)"
  obtain x s' c' where jh: "joke_handler cfg rc (startSpan ''joke.run'' SERVER) c0 = (x, s', c')"
    by (cases "joke_handler cfg rc (startSpan ''joke.run'' SERVER) c0") auto
  from joke_handler_span [OF jh] have "x = None" and "end_calls s' = 0"
    by (simp_all add: startSpan_def)
  then show "rej = None \<and> (\<exists>s. sp = Some s \<and> end_calls s = 1)"
    using g jh by (auto simp: get_joke_def withSpan_def span_end_def)
qed

theorem withSpan_closes_once_and_forwards_witness:
  "throwing_handler remote_unavailable (startSpan ''joke.run'' SERVER) fresh_ctx =
     (Some remote_unavailable, startSpan ''joke.run'' SERVER, fresh_ctx)
   \<and> withSpan (Some sample_tracer) ''joke.run'' (throwing_handler remote_unavailable) fresh_ctx =
       (None,
        Some \<lparr>sp_name = ''joke.run'', sp_kind = SERVER, attributes = [], events = [],
              status = Status ERROR (Some ''connect ECONNREFUSED''),
              exceptions = [remote_unavailable], end_calls = 1\<rparr>,
        fresh_ctx\<lparr>forwarded := [remote_unavailable]\<rparr>)
   \<and> fst (get_joke (Some sample_tracer) sample_settings
        (stub_remote (Inl remote_unavailable) (Inl remote_unavailable) []) fresh_ctx) = None
   \<and> map_option end_calls (fst (snd (get_joke (Some sample_tracer) sample_settings
        (stub_remote (Inl remote_unavailable) (Inl remote_unavailable) []) fresh_ctx))) = Some 1"
  using withSpan_closes_once_and_forwards [of "throwing_handler remote_unavailable" "''joke.run''"
      fresh_ctx "Some remote_unavailable" "startSpan ''joke.run'' SERVER" fresh_ctx sample_tracer
      sample_settings "stub_remote (Inl remote_unavailable) (Inl remote_unavailable) []" fresh_ctx
      None]
  by (simp add: sample_eval throwing_handler_def)

section \<open>C7: token counts under either spelling\<close>

text \<open>
  C7. In a /joke request whose run has a usage record, the closed span carries
  \<^verbatim>\<open>gen_ai.usage.input_tokens\<close> with the value of \<^verbatim>\<open>inputTokens\<close> when that field is present,
  otherwise with the value of \<^verbatim>\<open>input_tokens\<close> when that one is present, and carries no such
  attribute when both are absent; the same holds for \<^verbatim>\<open>gen_ai.usage.output_tokens\<close> with
  \<^verbatim>\<open>outputTokens\<close> and \<^verbatim>\<open>output_tokens\<close>.
\<close>

theorem usage_token_attributes:
  assumes "getAgent rc (agentId cfg) = Inr a"
    and "threads_create rc = Inr th"
    and "messages_create rc (thread_id th) ''assistant'' systemPrompt = Inr ()"
    and "runs_createAndPoll rc (thread_id th) (agent_id a) = Inr r"
    and "run_usage r = Some u"
  shows "\<exists>s c'. get_joke (Some t) cfg rc fresh_ctx = (None, Some s, c') \<and>
           map_of (attributes s) ''gen_ai.usage.input_tokens'' =
             (case inputTokens u of
                Some v \<Rightarrow> Some (ANum v)
              | None \<Rightarrow> (case input_tokens u of Some v \<Rightarrow> Some (ANum v) | None \<Rightarrow> None)) \<and>
           map_of (attributes s) ''gen_ai.usage.output_tokens'' =
             (case outputTokens u of
                Some v \<Rightarrow> Some (ANum v)
              | None \<Rightarrow> (case output_tokens u of Some v \<Rightarrow> Some (ANum v) | None \<Rightarrow> None))"
proof -
  let ?s0 = "record_thread a th (startSpan ''joke.run'' SERVER)"
  let ?c4 = "log_call (CreateAndPoll (thread_id th) (agent_id a))
               (log_call (MessagesCreate (thread_id th) ''assistant'' systemPrompt)
                 (log_call ThreadsCreate (log_call (GetAgent (agentId cfg)) fresh_ctx)))"
  obtain x s' c' where ar: "joke_after_run rc th r ?s0 ?c4 = (x, s', c')"
    by (cases "joke_after_run rc th r ?s0 ?c4") auto
  have at: "attributes s' = attributes (record_usage u (record_run th r ?s0))"
    using assms(5) ar by (rule joke_after_run_attributes)
  have run: "\<exists>s c''. get_joke (Some t) cfg rc fresh_ctx = (None, Some s, c'') \<and>
               attributes s = attributes s'"
    using assms(1-4) ar
    by (cases x) (simp_all add: get_joke_def withSpan_def joke_handler_def joke_try_def
        span_ops Let_def)
  then obtain s c'' where g: "get_joke (Some t) cfg rc fresh_ctx = (None, Some s, c'')"
    and a: "attributes s = attributes s'" by blast
  show ?thesis
    using g
    by (simp add: a at record_usage_attributes usage_attributes_before cong: option.case_cong)
qed

text \<open>Both spellings present for the input count, only the second for the output count.\<close>

theorem usage_token_attributes_witness:
  "runs_createAndPoll
     (stub_remote (Inr sample_thread)
        (Inr (sample_run ''completed''
           (Some \<lparr>inputTokens = Some 5, input_tokens = Some 7,
                   outputTokens = None, output_tokens = Some 3\<rparr>))) sample_messages)
     ''t1'' ''agent_id'' =
     Inr (sample_run ''completed''
           (Some \<lparr>inputTokens = Some 5, input_tokens = Some 7,
                   outputTokens = None, output_tokens = Some 3\<rparr>))
   \<and> map_option (\<lambda>s. map_of (attributes s) ''gen_ai.usage.input_tokens'')
       (fst (snd (get_joke (Some sample_tracer) sample_settings
         (stub_remote (Inr sample_thread)
            (Inr (sample_run ''completed''
               (Some \<lparr>inputTokens = Some 5, input_tokens = Some 7,
                       outputTokens = None, output_tokens = Some 3\<rparr>))) sample_messages)
         fresh_ctx))) = Some (Some (ANum 5))
   \<and> map_option (\<lambda>s. map_of (attributes s) ''gen_ai.usage.output_tokens'')
       (fst (snd (get_joke (Some sample_tracer) sample_settings
         (stub_remote (Inr sample_thread)
            (Inr (sample_run ''completed''
               (Some \<lparr>inputTokens = Some 5, input_tokens = Some 7,
                       outputTokens = None, output_tokens = Some 3\<rparr>))) sample_messages)
         fresh_ctx))) = Some (Some (ANum 3))"
  using usage_token_attributes [of
      "stub_remote (Inr sample_thread)
            (Inr (sample_run ''completed''
               (Some \<lparr>inputTokens = Some 5, input_tokens = Some 7,
                       outputTokens = None, output_tokens = Some 3\<rparr>))) sample_messages"
      sample_settings "\<lparr>agent_id = ''agent_id''\<rparr>" sample_thread
      "sample_run ''completed''
               (Some \<lparr>inputTokens = Some 5, input_tokens = Some 7,
                       outputTokens = None, output_tokens = Some 3\<rparr>)"
      "\<lparr>inputTokens = Some 5, input_tokens = Some 7, outputTokens = None, output_tokens = Some 3\<rparr>"
      sample_tracer]
  by (simp add: sample_eval)

text \<open>The two separate cases of the specification, on the recording step alone.\<close>

lemma usage_either_spelling_examples:
  "map_of (attributes (record_usage
      \<lparr>inputTokens = Some 5, input_tokens = None, outputTokens = None, output_tokens = None\<rparr>
      (startSpan ''joke.run'' SERVER))) ''gen_ai.usage.input_tokens'' = Some (ANum 5)"
  "map_of (attributes (record_usage
      \<lparr>inputTokens = None, input_tokens = Some 5, outputTokens = None, output_tokens = None\<rparr>
      (startSpan ''joke.run'' SERVER))) ''gen_ai.usage.input_tokens'' = Some (ANum 5)"
  by (simp_all add: record_usage_attributes)

section \<open>C8: the body of a successful /joke response\<close>

text \<open>
  C8. A /joke request in which every step succeeds (the agent is found, the thread is created,
  the prompt is appended, the run comes back with its usage record and a status other than
  \<^verbatim>\<open>failed\<close>, and an assistant text is found on the thread) answers 200 with the body
  \<^verbatim>\<open>{message, threadId}\<close>, where the message is the extracted text and the thread identifier is
  the one of the thread created in this request; nothing is handed to \<^verbatim>\<open>next\<close>. These are the
  only successful requests: whenever a /joke request answers 200 with a body, all of these
  steps succeeded in it, and the body is the one above for the thread it created and the text
  it extracted.
\<close>

theorem joke_success_body:
  "(getAgent rc (agentId cfg) = Inr a \<and> threads_create rc = Inr th \<and>
    messages_create rc (thread_id th) ''assistant'' systemPrompt = Inr () \<and>
    runs_createAndPoll rc (thread_id th) (agent_id a) = Inr r \<and>
    run_usage r = Some u \<and> run_status r \<noteq> ''failed'' \<and>
    fst (getLatestAssistantMessageText rc (thread_id th) fresh_ctx) = Inr text \<longrightarrow>
      (\<exists>s c'. get_joke (Some t) cfg rc fresh_ctx = (None, Some s, c') \<and>
         res_code c' = 200 \<and>
         res_body c' =
           Some (JObj [(''message'', JStr text), (''threadId'', JStr (thread_id th))]) \<and>
         forwarded c' = []))
   \<and> (get_joke tr cfg rc fresh_ctx = (rej, sp, c2) \<and> res_code c2 = 200 \<and> res_body c2 = Some b \<longrightarrow>
      (\<exists>a2 th2 r2 text2.
         tr \<noteq> None \<and>
         getAgent rc (agentId cfg) = Inr a2 \<and> threads_create rc = Inr th2 \<and>
         messages_create rc (thread_id th2) ''assistant'' systemPrompt = Inr () \<and>
         runs_createAndPoll rc (thread_id th2) (agent_id a2) = Inr r2 \<and>
         run_usage r2 \<noteq> None \<and> run_status r2 \<noteq> ''failed'' \<and>
         fst (getLatestAssistantMessageText rc (thread_id th2) fresh_ctx) = Inr text2 \<and>
         b = JObj [(''message'', JStr text2), (''threadId'', JStr (thread_id th2))]))"
proof (rule conjI; rule impI)
  assume "getAgent rc (agentId cfg) = Inr a \<and> threads_create rc = Inr th \<and>
    messages_create rc (thread_id th) ''assistant'' systemPrompt = Inr () \<and>
    runs_createAndPoll rc (thread_id th) (agent_id a) = Inr r \<and>
    run_usage r = Some u \<and> run_status r \<noteq> ''failed'' \<and>
    fst (getLatestAssistantMessageText rc (thread_id th) fresh_ctx) = Inr text"
  then show "\<exists>s c'. get_joke (Some t) cfg rc fresh_ctx = (None, Some s, c') \<and>
         res_code c' = 200 \<and>
         res_body c' =
           Some (JObj [(''message'', JStr text), (''threadId'', JStr (thread_id th))]) \<and>
         forwarded c' = []"
    by (simp add: get_joke_def withSpan_def joke_handler_def joke_try_def joke_after_run_def
        joke_reply_alt dispatch_def span_ops ctx_ops fresh_ctx_def reply_body_def Let_def)
next
  assume h: "get_joke tr cfg rc fresh_ctx = (rej, sp, c2) \<and> res_code c2 = 200 \<and>
             res_body c2 = Some b"
  show "\<exists>a2 th2 r2 text2.
         tr \<noteq> None \<and>
         getAgent rc (agentId cfg) = Inr a2 \<and> threads_create rc = Inr th2 \<and>
         messages_create rc (thread_id th2) ''assistant'' systemPrompt = Inr () \<and>
         runs_createAndPoll rc (thread_id th2) (agent_id a2) = Inr r2 \<and>
         run_usage r2 \<noteq> None \<and> run_status r2 \<noteq> ''failed'' \<and>
         fst (getLatestAssistantMessageText rc (thread_id th2) fresh_ctx) = Inr text2 \<and>
         b = JObj [(''message'', JStr text2), (''threadId'', JStr (thread_id th2))]"
  proof (cases tr)
    case None
    then show ?thesis using h
      by (auto simp: get_joke_def withSpan_def dispatch_def fresh_ctx_def)
  next
    case (Some t0)
    obtain x s1 c1 where jt: "joke_try cfg rc (startSpan ''joke.run'' SERVER) fresh_ctx = (x, s1, c1)"
      by (cases "joke_try cfg rc (startSpan ''joke.run'' SERVER) fresh_ctx") auto
    note resp = joke_try_response [OF jt]
    show ?thesis
    proof (cases x)
      case (Some e)
      then have "res_code c2 = 500"
        using h \<open>tr = Some t0\<close> jt resp
        by (auto simp: get_joke_def withSpan_def joke_handler_def dispatch_def errorHandler_def
            ctx_ops fresh_ctx_def)
      then show ?thesis using h by simp
    next
      case None
      then have "c2 = c1"
        using h \<open>tr = Some t0\<close> jt resp
        by (auto simp: get_joke_def withSpan_def joke_handler_def dispatch_def fresh_ctx_def)
      then show ?thesis using resp None h \<open>tr = Some t0\<close>
        by (auto simp: reply_body_def)
    qed
  qed
qed

text \<open>The end-to-end scenario: thread \<^verbatim>\<open>t1\<close>, a completed run, one assistant message.\<close>

theorem joke_success_body_witness:
  "getAgent (stub_remote (Inr sample_thread) (Inr (sample_run ''completed'' (Some sample_usage)))
       sample_messages) (agentId sample_settings) = Inr \<lparr>agent_id = ''agent_id''\<rparr>
   \<and> threads_create (stub_remote (Inr sample_thread)
        (Inr (sample_run ''completed'' (Some sample_usage))) sample_messages) = Inr sample_thread
   \<and> thread_id sample_thread = ''t1''
   \<and> messages_create (stub_remote (Inr sample_thread)
        (Inr (sample_run ''completed'' (Some sample_usage))) sample_messages)
        ''t1'' ''assistant'' systemPrompt = Inr ()
   \<and> runs_createAndPoll (stub_remote (Inr sample_thread)
        (Inr (sample_run ''completed'' (Some sample_usage))) sample_messages)
        ''t1'' ''agent_id'' = Inr (sample_run ''completed'' (Some sample_usage))
   \<and> run_usage (sample_run ''completed'' (Some sample_usage)) = Some sample_usage
   \<and> run_status (sample_run ''completed'' (Some sample_usage)) \<noteq> ''failed''
   \<and> fst (getLatestAssistantMessageText (stub_remote (Inr sample_thread)
        (Inr (sample_run ''completed'' (Some sample_usage))) sample_messages) ''t1'' fresh_ctx) =
      Inr ''Why did...''
   \<and> res_code (snd (snd (get_joke (Some sample_tracer) sample_settings
      (stub_remote (Inr sample_thread) (Inr (sample_run ''completed'' (Some sample_usage)))
         sample_messages) fresh_ctx))) = 200
   \<and> res_body (snd (snd (get_joke (Some sample_tracer) sample_settings
      (stub_remote (Inr sample_thread) (Inr (sample_run ''completed'' (Some sample_usage)))
         sample_messages) fresh_ctx))) =
      Some (JObj [(''message'', JStr ''Why did...''), (''threadId'', JStr ''t1'')])"
  using joke_success_body [of
      "stub_remote (Inr sample_thread) (Inr (sample_run ''completed'' (Some sample_usage)))
         sample_messages"
      sample_settings "\<lparr>agent_id = ''agent_id''\<rparr>" sample_thread
      "sample_run ''completed'' (Some sample_usage)" sample_usage "''Why did...''" sample_tracer
      "Some sample_tracer"
      "fst (get_joke (Some sample_tracer) sample_settings
        (stub_remote (Inr sample_thread) (Inr (sample_run ''completed'' (Some sample_usage)))
           sample_messages) fresh_ctx)"
      "fst (snd (get_joke (Some sample_tracer) sample_settings
        (stub_remote (Inr sample_thread) (Inr (sample_run ''completed'' (Some sample_usage)))
           sample_messages) fresh_ctx))"
      "snd (snd (get_joke (Some sample_tracer) sample_settings
        (stub_remote (Inr sample_thread) (Inr (sample_run ''completed'' (Some sample_usage)))
           sample_messages) fresh_ctx))"
      "JObj [(''message'', JStr ''Why did...''), (''threadId'', JStr ''t1'')]"]
  by (simp add: sample_eval)

text \<open>
  The usage record is part of what makes a request succeed: the same scenario with a run that
  has none answers 500, although the reply is on the thread.
\<close>

lemma joke_without_usage_not_successful:
  "res_code (snd (snd (get_joke (Some sample_tracer) sample_settings
      (stub_remote (Inr sample_thread) (Inr (sample_run ''completed'' None))
         sample_messages) fresh_ctx))) = 500"
  by (simp add: sample_eval)

section \<open>C9: a remote fault on the /joke route\<close>

text \<open>
  C9 does not hold: when the thread creation is rejected, the handler's own \<^verbatim>\<open>catch\<close> sets
  the span status to ERROR and hands the error to the generic error handler, which answers 500
  with the error and its message, and then returns normally; the \<^verbatim>\<open>catch\<close> of \<^verbatim>\<open>withSpan\<close>, the
  only place that records an exception on the span, is never entered, and the closed span has
  no exception record.
\<close>

theorem joke_fault_not_recorded:
  "map_option exceptions (fst (snd (get_joke (Some sample_tracer) sample_settings
       (stub_remote (Inl remote_unavailable) (Inr (sample_run ''completed'' (Some sample_usage)))
          sample_messages) fresh_ctx))) = Some []
   \<and> map_option status (fst (snd (get_joke (Some sample_tracer) sample_settings
       (stub_remote (Inl remote_unavailable) (Inr (sample_run ''completed'' (Some sample_usage)))
          sample_messages) fresh_ctx))) = Some (Status ERROR (Some ''connect ECONNREFUSED''))
   \<and> forwarded (snd (snd (get_joke (Some sample_tracer) sample_settings
       (stub_remote (Inl remote_unavailable) (Inr (sample_run ''completed'' (Some sample_usage)))
          sample_messages) fresh_ctx))) = [remote_unavailable]
   \<and> res_body (snd (snd (get_joke (Some sample_tracer) sample_settings
       (stub_remote (Inl remote_unavailable) (Inr (sample_run ''completed'' (Some sample_usage)))
          sample_messages) fresh_ctx))) =
       Some (JObj [(''error'', JStr ''Internal Server Error''),
                   (''msg'', JStr ''connect ECONNREFUSED'')])"
  by (simp add: sample_eval)

section \<open>C10: the usage record is read without a guard\<close>

text \<open>
  C10. In a /joke request whose run has no usage record, whatever the status of the run, the
  read of the counters throws a \<^verbatim>\<open>TypeError\<close>: the error reaches the generic error handler, the
  response is the 500 internal-server-error one, the span status is ERROR, and no message
  listing is made. A usage record whose four counters are all absent throws nothing: with a
  run that is not failed and an assistant reply on the thread, the response is the 200 one and
  nothing is handed to \<^verbatim>\<open>next\<close>.
\<close>

theorem usage_record_unguarded:
  assumes "getAgent rc (agentId cfg) = Inr a"
    and "threads_create rc = Inr th"
    and "messages_create rc (thread_id th) ''assistant'' systemPrompt = Inr ()"
    and "runs_createAndPoll rc (thread_id th) (agent_id a) = Inr r"
  shows "(run_usage r = None \<longrightarrow>
            (\<exists>s c'. get_joke (Some t) cfg rc fresh_ctx = (None, Some s, c') \<and>
               forwarded c' = [usage_type_error] \<and>
               status s = Status ERROR (Some ''Cannot read properties of undefined (reading 'inputTokens')'') \<and>
               res_code c' = 500 \<and>
               res_body c' =
                 Some (JObj [(''error'', JStr ''Internal Server Error''),
                             (''msg'', JStr ''Cannot read properties of undefined (reading 'inputTokens')'')]) \<and>
               calls c' =
                 [GetAgent (agentId cfg), ThreadsCreate,
                  MessagesCreate (thread_id th) ''assistant'' systemPrompt,
                  CreateAndPoll (thread_id th) (agent_id a)]))
       \<and> (\<forall>text. run_usage r =
              Some \<lparr>inputTokens = None, input_tokens = None, outputTokens = None, output_tokens = None\<rparr> \<longrightarrow>
            run_status r \<noteq> ''failed'' \<longrightarrow>
            fst (getLatestAssistantMessageText rc (thread_id th) fresh_ctx) = Inr text \<longrightarrow>
            (\<exists>s c'. get_joke (Some t) cfg rc fresh_ctx = (None, Some s, c') \<and>
               forwarded c' = [] \<and> status s = Status OK None \<and> res_code c' = 200 \<and>
               res_body c' = Some (reply_body text (thread_id th))))"
proof (intro conjI impI allI)
  assume "run_usage r = None"
  then show "\<exists>s c'. get_joke (Some t) cfg rc fresh_ctx = (None, Some s, c') \<and>
               forwarded c' = [usage_type_error] \<and>
               status s = Status ERROR (Some ''Cannot read properties of undefined (reading 'inputTokens')'') \<and>
               res_code c' = 500 \<and>
               res_body c' =
                 Some (JObj [(''error'', JStr ''Internal Server Error''),
                             (''msg'', JStr ''Cannot read properties of undefined (reading 'inputTokens')'')]) \<and>
               calls c' =
                 [GetAgent (agentId cfg), ThreadsCreate,
                  MessagesCreate (thread_id th) ''assistant'' systemPrompt,
                  CreateAndPoll (thread_id th) (agent_id a)]"
    using assms
    by (simp add: get_joke_def withSpan_def joke_handler_def joke_try_def joke_after_run_def
        dispatch_def errorHandler_def span_ops ctx_ops fresh_ctx_def usage_type_error_def
        nullish_default_def Let_def)
next
  fix reply :: string
  let ?u = "\<lparr>inputTokens = None, input_tokens = None, outputTokens = None, output_tokens = None\<rparr>"
  assume u: "run_usage r = Some ?u"
    and st: "run_status r \<noteq> ''failed''"
    and tx: "fst (getLatestAssistantMessageText rc (thread_id th) fresh_ctx) = Inr reply"
  show "\<exists>s c'. get_joke (Some t) cfg rc fresh_ctx = (None, Some s, c') \<and>
               forwarded c' = [] \<and> status s = Status OK None \<and> res_code c' = 200 \<and>
               res_body c' = Some (reply_body reply (thread_id th))"
    using assms u st tx
    by (simp add: get_joke_def withSpan_def joke_handler_def joke_try_def joke_after_run_def
        joke_reply_alt dispatch_def span_ops ctx_ops fresh_ctx_def Let_def)
qed

text \<open>A completed run without a usage record, and one whose usage record has no counter.\<close>

theorem usage_record_unguarded_witness:
  "run_usage (sample_run ''completed'' None) = None
   \<and> res_code (snd (snd (get_joke (Some sample_tracer) sample_settings
        (stub_remote (Inr sample_thread) (Inr (sample_run ''completed'' None)) sample_messages)
        fresh_ctx))) = 500
   \<and> forwarded (snd (snd (get_joke (Some sample_tracer) sample_settings
        (stub_remote (Inr sample_thread) (Inr (sample_run ''completed'' None)) sample_messages)
        fresh_ctx))) = [usage_type_error]
   \<and> res_code (snd (snd (get_joke (Some sample_tracer) sample_settings
        (stub_remote (Inr sample_thread)
           (Inr (sample_run ''completed''
              (Some \<lparr>inputTokens = None, input_tokens = None,
                      outputTokens = None, output_tokens = None\<rparr>))) sample_messages)
        fresh_ctx))) = 200
   \<and> forwarded (snd (snd (get_joke (Some sample_tracer) sample_settings
        (stub_remote (Inr sample_thread)
           (Inr (sample_run ''completed''
              (Some \<lparr>inputTokens = None, input_tokens = None,
                      outputTokens = None, output_tokens = None\<rparr>))) sample_messages)
        fresh_ctx))) = []"
  using usage_record_unguarded [of
      "stub_remote (Inr sample_thread) (Inr (sample_run ''completed'' None)) sample_messages"
      sample_settings "\<lparr>agent_id = ''agent_id''\<rparr>" sample_thread
      "sample_run ''completed'' None" sample_tracer]
    usage_record_unguarded [of
      "stub_remote (Inr sample_thread)
           (Inr (sample_run ''completed''
              (Some \<lparr>inputTokens = None, input_tokens = None,
                      outputTokens = None, output_tokens = None\<rparr>))) sample_messages"
      sample_settings "\<lparr>agent_id = ''agent_id''\<rparr>" sample_thread
      "sample_run ''completed''
              (Some \<lparr>inputTokens = None, input_tokens = None,
                      outputTokens = None, output_tokens = None\<rparr>)" sample_tracer]
  by (simp add: sample_eval usage_type_error_def)

end
